theory Spec2Isabelle
  imports Complex_Main "HOL-Library.Sublist" "HOL-Library.Char_ord" "HOL-Library.List_Lexorder"
    "HOL-Library.Log_Nat"
begin

section \<open>HireFlow backend: resume parsing, candidate scoring, workflow\<close>

text \<open>
  A shallow embedding of \<^verbatim>\<open>backend.py\<close>.

  Conventions of the model:
  \<^item> a Python \<^verbatim>\<open>str\<close> is a \<open>string\<close>; each \<open>char\<close> is read as the code point of the
    same number, so the model covers texts over the code points 0 to 255;
  \<^item> a Python \<^verbatim>\<open>float\<close> is the \<open>real\<close> it denotes: every float operation rounds its exact
    result to the nearest binary64 number (\<open>to_double\<close>), a number given to the scorer is
    read as the float nearest to it, and \<^verbatim>\<open>round(x, 2)\<close> is the binary64 number nearest to the
    hundredth nearest to \<open>x\<close>; infinities, NaN and numbers beyond the binary64 range are not
    modelled;
  \<^item> a value of type \<^verbatim>\<open>Any\<close> is a \<open>pyval\<close>, and an operation that raises on it returns
    \<open>Inl\<close> of the exception;
  \<^item> the two presentation strings \<^verbatim>\<open>summary\<close> and \<^verbatim>\<open>explanation\<close> (formatted floats) and
    the records written to the module logger are left out.
\<close>

subsection \<open>Python values and exceptions\<close>

datatype pyval =
    PNone
  | PBool bool
  | PNum real
  | PStr string
  | PList "pyval list"
  | PDict "(string \<times> pyval) list"

datatype py_error = ValueError string | TypeError | AttributeError

text \<open>A \<^verbatim>\<open>Dict[str, Any]\<close>: the first binding of a key in the list is the dict's entry.\<close>

type_synonym pydict = "(string \<times> pyval) list"

definition dict_get :: "pydict \<Rightarrow> string \<Rightarrow> pyval \<Rightarrow> pyval" where
  "dict_get d k dflt = (case map_of d k of Some v \<Rightarrow> v | None \<Rightarrow> dflt)"

fun hashable :: "pyval \<Rightarrow> bool" where
  "hashable (PList _) = False"
| "hashable (PDict _) = False"
| "hashable _ = True"

text \<open>\<^verbatim>\<open>True == 1\<close> and \<^verbatim>\<open>False == 0\<close> with equal hashes: one element of a set.\<close>

fun py_key :: "pyval \<Rightarrow> pyval" where
  "py_key (PBool b) = PNum (if b then 1 else 0)"
| "py_key v = v"

text \<open>\<^verbatim>\<open>set(x)\<close>, as the list of its distinct elements.\<close>

fun py_set :: "pyval \<Rightarrow> py_error + pyval list" where
  "py_set (PList xs) = (if list_all hashable xs then Inr (remdups (map py_key xs)) else Inl TypeError)"
| "py_set (PStr s) = Inr (remdups (map (\<lambda>c. PStr [c]) s))"
| "py_set (PDict kvs) = Inr (remdups (map (\<lambda>kv. PStr (fst kv)) kvs))"
| "py_set _ = Inl TypeError"

text \<open>A number as the operand of \<^verbatim>\<open>> 0\<close> and \<^verbatim>\<open>/\<close>; \<^verbatim>\<open>bool\<close> is a subtype of \<^verbatim>\<open>int\<close>.\<close>

fun py_num :: "pyval \<Rightarrow> py_error + real" where
  "py_num (PNum x) = Inr x"
| "py_num (PBool b) = Inr (if b then 1 else 0)"
| "py_num _ = Inl TypeError"

text \<open>The receiver of \<^verbatim>\<open>.lower()\<close>: only a \<^verbatim>\<open>str\<close> has the method.\<close>

fun py_str :: "pyval \<Rightarrow> py_error + string" where
  "py_str (PStr s) = Inr s"
| "py_str _ = Inl AttributeError"

subsection \<open>Strings\<close>

text \<open>\<^verbatim>\<open>str.lower\<close> on the code points 0 to 255: A-Z and the accented capitals.\<close>

definition py_lower_char :: "char \<Rightarrow> char" where
  "py_lower_char c = (let n = (of_char c :: nat) in
     if (65 \<le> n \<and> n \<le> 90) \<or> (192 \<le> n \<and> n \<le> 214) \<or> (216 \<le> n \<and> n \<le> 222)
     then char_of (n + 32) else c)"

definition lower :: "string \<Rightarrow> string" where
  "lower s = map py_lower_char s"

text \<open>\<^verbatim>\<open>p in s\<close> for strings: \<open>p\<close> occurs in \<open>s\<close> as a contiguous substring.\<close>

fun str_in :: "string \<Rightarrow> string \<Rightarrow> bool" where
  "str_in p [] = (p = [])"
| "str_in p (c # cs) = (prefix p (c # cs) \<or> str_in p cs)"

subsection \<open>Character classes\<close>

text \<open>The classes of \<^verbatim>\<open>re\<close> and \<^verbatim>\<open>str\<close> on the code points 0 to 255.\<close>

definition code_in :: "nat \<Rightarrow> nat \<Rightarrow> char \<Rightarrow> bool" where
  "code_in lo hi c = (lo \<le> of_char c \<and> (of_char c :: nat) \<le> hi)"

definition is_digit :: "char \<Rightarrow> bool" where
  "is_digit c = code_in 48 57 c"

definition is_ascii_letter :: "char \<Rightarrow> bool" where
  "is_ascii_letter c = (code_in 65 90 c \<or> code_in 97 122 c)"

definition is_space :: "char \<Rightarrow> bool" where
  "is_space c = (code_in 9 13 c \<or> code_in 28 32 c \<or> of_char c = (133::nat) \<or> of_char c = (160::nat))"

definition is_word :: "char \<Rightarrow> bool" where
  "is_word c = (code_in 48 57 c \<or> code_in 65 90 c \<or> of_char c = (95::nat) \<or> code_in 97 122 c
     \<or> of_char c = (170::nat) \<or> code_in 178 179 c \<or> of_char c = (181::nat) \<or> code_in 185 186 c
     \<or> code_in 188 190 c \<or> code_in 192 214 c \<or> code_in 216 246 c \<or> code_in 248 255 c)"

definition is_linebreak :: "char \<Rightarrow> bool" where
  "is_linebreak c = (code_in 10 13 c \<or> code_in 28 30 c \<or> of_char c = (133::nat))"

text \<open>\<^verbatim>\<open>str.strip()\<close> and \<^verbatim>\<open>str.splitlines()\<close>\<close>

definition strip :: "string \<Rightarrow> string" where
  "strip s = rev (dropWhile is_space (rev (dropWhile is_space s)))"

fun splitlines_from :: "string \<Rightarrow> string \<Rightarrow> string list" where
  "splitlines_from acc [] = (if acc = [] then [] else [rev acc])"
| "splitlines_from acc (c # cs) =
     (if is_linebreak c
      then rev acc # splitlines_from []
             (if c = CHR 0x0D \<and> cs \<noteq> [] \<and> hd cs = CHR 0x0A then tl cs else cs)
      else splitlines_from (c # acc) cs)"

definition splitlines :: "string \<Rightarrow> string list" where
  "splitlines s = splitlines_from [] s"

subsection \<open>Regular expressions\<close>

text \<open>
  The patterns of the program, and the backtracking matcher of \<^verbatim>\<open>re\<close>. A position in the
  subject is the character before it (none at the start), the text after it, and the groups
  captured so far. \<open>ms r st\<close> lists the positions at which a match of \<open>r\<close> started at \<open>st\<close>
  can end, in the order in which the matcher tries them: a repetition takes as much as it can
  first, an alternation its left branch first. The head of the list is the match \<^verbatim>\<open>re\<close> finds.
\<close>

datatype rx =
    Chr "char \<Rightarrow> bool"
  | Eps
  | Seq rx rx
  | Alt rx rx
  | Star rx
  | Grp nat rx
  | Bol
  | Eol
  | WordB

type_synonym mpos = "char option \<times> string \<times> (nat \<times> string) list"

text \<open>\<^verbatim>\<open>\b\<close>: exactly one of the two neighbours is a word character.\<close>

definition at_word_boundary :: "char option \<Rightarrow> string \<Rightarrow> bool" where
  "at_word_boundary p s =
     ((case p of None \<Rightarrow> False | Some c \<Rightarrow> is_word c) \<noteq> (case s of [] \<Rightarrow> False | c # _ \<Rightarrow> is_word c))"

function ms :: "rx \<Rightarrow> mpos \<Rightarrow> mpos list" where
  "ms (Chr P) (p, s, g) = (case s of [] \<Rightarrow> [] | c # cs \<Rightarrow> if P c then [(Some c, cs, g)] else [])"
| "ms Eps st = [st]"
| "ms (Seq a b) st = concat (map (ms b) (ms a st))"
| "ms (Alt a b) st = ms a st @ ms b st"
| "ms (Star a) st =
     concat (map (ms (Star a)) (filter (\<lambda>st'. length (fst (snd st')) < length (fst (snd st))) (ms a st)))
       @ [st]"
| "ms (Grp n a) (p, s, g) =
     map (\<lambda>(p', s', g'). (p', s', (n, take (length s - length s') s) # g')) (ms a (p, s, g))"
| "ms Bol (p, s, g) = (if p = None then [(p, s, g)] else [])"
| "ms Eol (p, s, g) = (if s = [] \<or> s = [CHR 0x0A] then [(p, s, g)] else [])"
| "ms WordB (p, s, g) = (if at_word_boundary p s then [(p, s, g)] else [])"
  by pat_completeness auto
termination
  by (relation "measures [\<lambda>(r, st). size r, \<lambda>(r, st). length (fst (snd st))]") auto

declare ms.simps [simp del]

text \<open>The group numbers a pattern can set.\<close>

fun groups_of :: "rx \<Rightarrow> nat set" where
  "groups_of (Seq a b) = groups_of a \<union> groups_of b"
| "groups_of (Alt a b) = groups_of a \<union> groups_of b"
| "groups_of (Star a) = groups_of a"
| "groups_of (Grp n a) = insert n (groups_of a)"
| "groups_of _ = {}"

text \<open>\<^verbatim>\<open>re.match\<close>: the match at the start of the subject, if any.\<close>

definition re_match :: "rx \<Rightarrow> string \<Rightarrow> mpos option" where
  "re_match r s = (case ms r (None, s, []) of [] \<Rightarrow> None | st # _ \<Rightarrow> Some st)"

text \<open>
  Pattern syntax: a literal, \<^verbatim>\<open>r+\<close>, \<^verbatim>\<open>r?\<close>, a sequence, an alternation, a literal under
  \<^verbatim>\<open>re.IGNORECASE\<close>, \<^verbatim>\<open>r{n}\<close>, \<^verbatim>\<open>r{0,n}\<close>, \<^verbatim>\<open>r{n,}\<close>, \<^verbatim>\<open>r{n,m}\<close> and a set of characters.
\<close>

definition lit :: "string \<Rightarrow> rx" where
  "lit s = foldr (\<lambda>c r. Seq (Chr (\<lambda>x. x = c)) r) s Eps"

definition many1 :: "rx \<Rightarrow> rx" where
  "many1 r = Seq r (Star r)"

definition optional :: "rx \<Rightarrow> rx" where
  "optional r = Alt r Eps"

definition seqs :: "rx list \<Rightarrow> rx" where
  "seqs rs = foldr Seq rs Eps"

definition alts :: "rx list \<Rightarrow> rx" where
  "alts rs = (case rs of [] \<Rightarrow> Eps | _ \<Rightarrow> foldr Alt (butlast rs) (last rs))"

definition lit_ci :: "string \<Rightarrow> rx" where
  "lit_ci s = foldr (\<lambda>c r. Seq (Chr (\<lambda>x. py_lower_char x = py_lower_char c)) r) s Eps"

fun rep :: "nat \<Rightarrow> rx \<Rightarrow> rx" where
  "rep 0 r = Eps"
| "rep (Suc n) r = Seq r (rep n r)"

fun upto_rep :: "nat \<Rightarrow> rx \<Rightarrow> rx" where
  "upto_rep 0 r = Eps"
| "upto_rep (Suc n) r = Alt (Seq r (upto_rep n r)) Eps"

definition at_least :: "nat \<Rightarrow> rx \<Rightarrow> rx" where
  "at_least n r = Seq (rep n r) (Star r)"

definition between :: "nat \<Rightarrow> nat \<Rightarrow> rx \<Rightarrow> rx" where
  "between n m r = Seq (rep n r) (upto_rep (m - n) r)"

definition one_of :: "string \<Rightarrow> char \<Rightarrow> bool" where
  "one_of cs c = (c \<in> set cs)"

text \<open>\<^verbatim>\<open>m.group(n)\<close>\<close>

definition group :: "(nat \<times> string) list \<Rightarrow> nat \<Rightarrow> string" where
  "group g n = (case map_of g n of Some v \<Rightarrow> v | None \<Rightarrow> [])"

text \<open>\<^verbatim>\<open>re.search(...)\<close> as a truth value: some position of the subject starts a match.\<close>

fun re_search :: "rx \<Rightarrow> char option \<Rightarrow> string \<Rightarrow> bool" where
  "re_search r p [] = (ms r (p, [], []) \<noteq> [])"
| "re_search r p (c # cs) = (ms r (p, c # cs, []) \<noteq> [] \<or> re_search r (Some c) cs)"

text \<open>
  \<^verbatim>\<open>re.finditer\<close> and \<^verbatim>\<open>re.findall\<close>: the matches from left to right, each search starting where
  the previous match ended; a match is its text and its groups. No pattern of the program
  matches the empty string; after an empty match the scan here moves one character on.
\<close>

function finditer :: "rx \<Rightarrow> char option \<Rightarrow> string \<Rightarrow> (string \<times> (nat \<times> string) list) list" where
  "finditer r p s =
     (case ms r (p, s, []) of
        (p', s', g) # _ \<Rightarrow>
          if length s' < length s
          then (take (length s - length s') s, g) # finditer r p' s'
          else ([], g) # (case s of [] \<Rightarrow> [] | c # cs \<Rightarrow> finditer r (Some c) cs)
      | [] \<Rightarrow> (case s of [] \<Rightarrow> [] | c # cs \<Rightarrow> finditer r (Some c) cs))"
  by pat_completeness auto
termination
  by (relation "measure (\<lambda>(r, p, s). length s)") auto

declare finditer.simps [simp del]

text \<open>\<^verbatim>\<open>re.sub(pattern, "", s)\<close>: the subject without its matches.\<close>

function re_sub_empty :: "rx \<Rightarrow> char option \<Rightarrow> string \<Rightarrow> string" where
  "re_sub_empty r p s =
     (case ms r (p, s, []) of
        (p', s', g) # _ \<Rightarrow>
          if length s' < length s
          then re_sub_empty r p' s'
          else (case s of [] \<Rightarrow> [] | c # cs \<Rightarrow> c # re_sub_empty r (Some c) cs)
      | [] \<Rightarrow> (case s of [] \<Rightarrow> [] | c # cs \<Rightarrow> c # re_sub_empty r (Some c) cs))"
  by pat_completeness auto
termination
  by (relation "measure (\<lambda>(r, p, s). length s)") auto

subsection \<open>Rounding\<close>

definition round_half_even :: "real \<Rightarrow> int" where
  "round_half_even y = (let f = \<lfloor>y\<rfloor>; d = y - of_int f in
     if d < 1 / 2 then f else if 1 / 2 < d then f + 1 else if even f then f else f + 1)"

text \<open>
  Binary64 arithmetic. For \<open>x > 0\<close>, \<open>binary_exponent x\<close> is the \<open>e\<close> with
  \<open>2^e \<le> x < 2^(e+1)\<close>. A positive number is rounded to 53 significant bits, ties to even;
  below \<open>2^-1022\<close> the spacing stays \<open>2^-1074\<close> (gradual underflow).
\<close>

definition binary_exponent :: "real \<Rightarrow> int" where
  "binary_exponent x = (if 1 \<le> x then bitlen \<lfloor>x\<rfloor> - 1 else - bitlen (\<lceil>1 / x\<rceil> - 1))"

definition round_to_53_bits :: "real \<Rightarrow> real" where
  "round_to_53_bits a =
     (let e = max (binary_exponent a) (- 1022);
          ulp = power_int 2 (e - 52)
      in of_int (round_half_even (a / ulp)) * ulp)"

definition to_double :: "real \<Rightarrow> real" where
  "to_double x = sgn x * round_to_53_bits \<bar>x\<bar>"

text \<open>\<^verbatim>\<open>a + b\<close> and \<^verbatim>\<open>a * b\<close> on floats.\<close>

definition float_add :: "real \<Rightarrow> real \<Rightarrow> real" where
  "float_add a b = to_double (a + b)"

definition float_mul :: "real \<Rightarrow> real \<Rightarrow> real" where
  "float_mul a b = to_double (a * b)"

text \<open>
  \<^verbatim>\<open>round(x, 2)\<close> on a float: the decimal with two places nearest to the exact value of \<open>x\<close>,
  ties to even, converted back to a float.
\<close>

definition round2 :: "real \<Rightarrow> real" where
  "round2 x = to_double (of_int (round_half_even (x * 100)) / 100)"

subsection \<open>Data model\<close>

record work_entry =
  title :: string
  company :: string
  start_year :: string
  end_year :: string

record parsed_resume =
  name :: string
  email :: string
  phone :: string
  skills :: "string list"
  experience_years :: real
  education :: string
  work_history :: "work_entry list"

record score_result =
  score :: real
  skill_match :: real
  experience_match :: real

text \<open>Job requirements whose three entries have the types of the data model.\<close>

definition job_requirements :: "string list \<Rightarrow> real \<Rightarrow> string \<Rightarrow> pydict" where
  "job_requirements req_skills min_experience education_level =
     [(''skills'', PList (map PStr req_skills)),
      (''min_experience'', PNum min_experience),
      (''education_level'', PStr education_level)]"

subsection \<open>Validators\<close>

definition rx_valid_email :: rx where
  "rx_valid_email = seqs
     [Bol, many1 (Chr (\<lambda>c. is_ascii_letter c \<or> is_digit c \<or> one_of ''._%+-'' c)), lit ''@'',
      many1 (Chr (\<lambda>c. is_ascii_letter c \<or> is_digit c \<or> one_of ''.-'' c)), lit ''.'',
      at_least 2 (Chr is_ascii_letter), Eol]"

definition validate_email :: "string \<Rightarrow> bool" where
  "validate_email e = (if e = [] then False else re_match rx_valid_email e \<noteq> None)"

definition rx_valid_phone :: rx where
  "rx_valid_phone = seqs
     [Bol, optional (lit ''+''),
      between 7 20 (Chr (\<lambda>c. is_digit c \<or> is_space c \<or> one_of ''-()'' c)), Eol]"

definition validate_phone :: "string \<Rightarrow> bool" where
  "validate_phone ph = (if ph = [] then False else re_match rx_valid_phone ph \<noteq> None)"

definition sanitize_phone :: "string \<Rightarrow> string" where
  "sanitize_phone ph =
     (if ph = [] then [] else re_sub_empty (many1 (Chr (\<lambda>c. \<not> (is_digit c \<or> c = CHR ''+'')))) None ph)"

subsection \<open>Field extractors\<close>

definition skill_set :: "string list" where
  "skill_set =
     [''python'', ''java'', ''c++'', ''javascript'', ''react'', ''nodejs'', ''aws'', ''docker'',
      ''kubernetes'', ''sql'', ''nosql'', ''machine learning'', ''nlp'', ''deep learning'',
      ''cloud'', ''devops'', ''agile'', ''scrum'', ''git'']"

definition synonyms :: "(string \<times> string list) list" where
  "synonyms =
     [(''nodejs'', [''node'', ''node.js'', ''nodejs'']),
      (''javascript'', [''js'', ''javascript'']),
      (''c++'', [''c++'', ''cpp'']),
      (''machine learning'', [''machine learning'', ''ml'']),
      (''deep learning'', [''deep learning'', ''dl''])]"

definition skill_pattern_found :: "string \<Rightarrow> string \<Rightarrow> bool" where
  "skill_pattern_found text_lower p =
     (if CHR ''+'' \<in> set p then str_in p text_lower
      else re_search (seqs [WordB, lit p, WordB]) None text_lower)"

definition extract_skills :: "string \<Rightarrow> string list" where
  "extract_skills resume_text =
     (if resume_text = [] then []
      else let text_lower = lower resume_text
           in sort (remdups (filter
                (\<lambda>skill. list_ex (skill_pattern_found text_lower)
                   (case map_of synonyms skill of Some ps \<Rightarrow> ps | None \<Rightarrow> [skill]))
                skill_set)))"

definition rx_experience :: rx where
  "rx_experience = seqs
     [Grp 1 (Seq (many1 (Chr is_digit)) (optional (Seq (lit ''.'') (many1 (Chr is_digit))))),
      optional (lit ''+''), Star (Chr is_space),
      alts [lit ''years'', lit ''yrs'', lit ''y''], WordB]"

text \<open>\<^verbatim>\<open>float(m[0])\<close>: the first character of the matched number, read as a number.\<close>

definition float_first_char :: "string \<Rightarrow> real" where
  "float_first_char m = (case m of [] \<Rightarrow> 0 | c # _ \<Rightarrow> real (of_char c - 48))"

definition extract_experience_years :: "string \<Rightarrow> real" where
  "extract_experience_years resume_text =
     (if resume_text = [] then 0
      else let matches = map (\<lambda>m. group (snd m) 1) (finditer rx_experience None (lower resume_text));
               years = map float_first_char matches
           in (case years of [] \<Rightarrow> 0 | y # ys \<Rightarrow> fold max ys y))"

definition edu_keywords :: "string list" where
  "edu_keywords = [''phd'', ''doctorate'', ''master'', ''bachelor'', ''associate'', ''diploma'', ''high school'']"

definition extract_education :: "string \<Rightarrow> string" where
  "extract_education resume_text =
     (if resume_text = [] then ''Not specified''
      else case find (\<lambda>line. list_ex (\<lambda>kw. str_in kw (lower line)) edu_keywords) (splitlines resume_text) of
             Some line \<Rightarrow> strip line
           | None \<Rightarrow> ''Not specified'')"

definition rx_work_history :: rx where
  "rx_work_history = seqs
     [Grp 1 (many1 (Chr (\<lambda>c. is_word c \<or> is_space c))), many1 (Chr is_space), lit_ci ''at'',
      many1 (Chr is_space), Grp 2 (many1 (Chr (\<lambda>c. is_word c \<or> is_space c))), many1 (Chr is_space),
      lit ''('', Grp 3 (rep 4 (Chr is_digit)), lit ''-'',
      Grp 4 (Alt (rep 4 (Chr is_digit)) (lit_ci ''present'')), lit '')'']"

definition extract_work_history :: "string \<Rightarrow> work_entry list" where
  "extract_work_history resume_text =
     map (\<lambda>m. \<lparr> title = strip (group (snd m) 1), company = strip (group (snd m) 2),
                 start_year = group (snd m) 3, end_year = group (snd m) 4 \<rparr>)
       (finditer rx_work_history None resume_text)"

subsection \<open>Resume parser\<close>

definition rx_email_like :: rx where
  "rx_email_like = seqs
     [many1 (Chr (\<lambda>c. is_ascii_letter c \<or> is_digit c \<or> one_of ''_.+-'' c)), lit ''@'',
      many1 (Chr (\<lambda>c. is_ascii_letter c \<or> is_digit c \<or> c = CHR ''-'')), lit ''.'',
      many1 (Chr (\<lambda>c. is_ascii_letter c \<or> is_digit c \<or> one_of ''-.'' c))]"

definition rx_phone_like :: rx where
  "rx_phone_like = seqs
     [optional (lit ''+''), Chr is_digit,
      at_least 7 (Chr (\<lambda>c. is_digit c \<or> is_space c \<or> c = CHR ''-'')), Chr is_digit]"

definition rx_name_label :: rx where
  "rx_name_label = seqs
     [Bol, alts [lit_ci ''name'', lit_ci ''full name'', lit_ci ''candidate''],
      many1 (Chr (\<lambda>c. one_of '':-'' c \<or> is_space c)),
      Grp 1 (many1 (Chr (\<lambda>c. c \<noteq> CHR 0x0A))), Eol]"

definition rx_phone_run :: rx where
  "rx_phone_run = seqs
     [optional (lit ''+''), Chr is_digit,
      at_least 6 (Chr (\<lambda>c. is_digit c \<or> is_space c \<or> c = CHR ''-''))]"

definition rx_name_prefix :: rx where
  "rx_name_prefix = seqs [Bol, lit_ci ''name'', many1 (Chr (\<lambda>c. one_of '':-'' c \<or> is_space c))]"

definition label_keywords :: "string list" where
  "label_keywords = [''experience'', ''education'', ''skills'', ''work history'', ''workhistory'', ''summary'']"

text \<open>The first loop over the lines: the first non-empty line with a name label.\<close>

fun labelled_name :: "string list \<Rightarrow> string \<Rightarrow> string" where
  "labelled_name [] nm = nm"
| "labelled_name (line # rest) nm =
     (if line = [] then labelled_name rest nm
      else case re_match rx_name_label line of
             Some m \<Rightarrow> strip (group (snd (snd m)) 1)
           | None \<Rightarrow> labelled_name rest nm)"

text \<open>The second loop: the first line that looks like neither an email, a phone nor a heading.\<close>

fun fallback_name :: "string list \<Rightarrow> string \<Rightarrow> string" where
  "fallback_name [] nm = nm"
| "fallback_name (line # rest) nm =
     (if line = [] then fallback_name rest nm
      else if re_search rx_email_like None line then fallback_name rest nm
      else if re_search rx_phone_run None line then fallback_name rest nm
      else if list_ex (\<lambda>k. str_in k (lower line)) label_keywords then fallback_name rest nm
      else let line2 = strip (re_sub_empty rx_name_prefix None line)
           in if 1 \<le> length line2 \<and> length line2 \<le> 80 then line2 else fallback_name rest nm)"

text \<open>Lines 178 to 204 of \<^verbatim>\<open>parse_resume\<close>.\<close>

definition extract_name :: "string \<Rightarrow> string" where
  "extract_name resume_text =
     (let lines = map strip (splitlines resume_text);
          nm = labelled_name lines ''Unknown''
      in if nm = ''Unknown'' then fallback_name lines nm else nm)"

text \<open>Lines 168 and 170: the first email-like substring that passes the validator.\<close>

definition extract_email :: "string \<Rightarrow> string" where
  "extract_email resume_text =
     (let email_candidates = map fst (finditer rx_email_like None resume_text)
      in case find validate_email email_candidates of Some e \<Rightarrow> e | None \<Rightarrow> [])"

text \<open>Lines 169, 171 and 172.\<close>

definition extract_phone :: "string \<Rightarrow> string" where
  "extract_phone resume_text =
     (let phone_candidates = map fst (finditer rx_phone_like None resume_text)
      in sanitize_phone (case find validate_phone phone_candidates of Some ph \<Rightarrow> ph | None \<Rightarrow> []))"

definition parse_resume :: "string \<Rightarrow> parsed_resume" where
  "parse_resume resume_text =
     \<lparr> name = extract_name resume_text,
       email = extract_email resume_text,
       phone = extract_phone resume_text,
       skills = extract_skills resume_text,
       experience_years = extract_experience_years resume_text,
       education = extract_education resume_text,
       work_history = extract_work_history resume_text \<rparr>"

subsection \<open>Candidate scorer\<close>

text \<open>
  The three ratios as exact numbers. The code computes each with one float division and
  cuts the last two off at \<^verbatim>\<open>1.0\<close>; rounding to a float and cutting off at 1 commute (lemma
  \<open>to_double_min_1\<close>), so the float the code holds is \<open>to_double\<close> of the ratio. The two
  operands of the experience division are floats: \<open>to_double\<close> of the numbers given.
\<close>

definition skill_match_ratio :: "string list \<Rightarrow> pyval list \<Rightarrow> real" where
  "skill_match_ratio candidate_skills required_skills =
     real (card (PStr ` set candidate_skills \<inter> set required_skills))
       / real (max (length required_skills) 1)"

definition experience_match_ratio :: "real \<Rightarrow> real \<Rightarrow> real" where
  "experience_match_ratio candidate_exp exp_required =
     min (if exp_required > 0 then candidate_exp / exp_required else 1) 1"

definition education_rank :: "(string \<times> nat) list" where
  "education_rank =
     [(''high school'', 1), (''diploma'', 2), (''associate'', 3), (''bachelor'', 4),
      (''master'', 5), (''phd'', 6), (''doctorate'', 6)]"

text \<open>The loop over \<^verbatim>\<open>education_rank.items()\<close> that stops at the first key found in the text.\<close>

fun candidate_edu_score :: "(string \<times> nat) list \<Rightarrow> string \<Rightarrow> nat" where
  "candidate_edu_score [] edu = 0"
| "candidate_edu_score ((edu_key, rank) # items) edu =
     (if str_in edu_key edu then rank else candidate_edu_score items edu)"

text \<open>\<^verbatim>\<open>education_rank.get(education_required, 0)\<close>\<close>

definition required_edu_score :: "string \<Rightarrow> nat" where
  "required_edu_score education_required =
     (case map_of education_rank education_required of Some rank \<Rightarrow> rank | None \<Rightarrow> 0)"

definition education_match_ratio :: "string \<Rightarrow> string \<Rightarrow> real" where
  "education_match_ratio edu education_required =
     min (if required_edu_score education_required > 0
          then real (candidate_edu_score education_rank edu)
                 / real (required_edu_score education_required)
          else 1) 1"

text \<open>
  Lines 262 to 274 on the three floats: the literals \<^verbatim>\<open>0.4\<close> and \<^verbatim>\<open>0.2\<close> are the floats nearest to
  4/10 and 2/10, the sum is taken from left to right, and every product and sum is rounded.
\<close>

definition weighted_sum :: "real \<Rightarrow> real \<Rightarrow> real \<Rightarrow> real" where
  "weighted_sum s x d =
     float_mul 100
       (float_add (float_add (float_mul (to_double (4 / 10)) s) (float_mul (to_double (4 / 10)) x))
          (float_mul (to_double (2 / 10)) d))"

definition weighted_score :: "real \<Rightarrow> real \<Rightarrow> real \<Rightarrow> score_result" where
  "weighted_score s x d =
     \<lparr> score = round2 (weighted_sum s x d),
       skill_match = round2 (float_mul s 100),
       experience_match = round2 (float_mul x 100) \<rparr>"

definition score_candidate :: "parsed_resume \<Rightarrow> pydict \<Rightarrow> py_error + score_result" where
  "score_candidate parsed job_reqs =
     (case py_set (dict_get job_reqs ''skills'' (PList [])) of
        Inl e \<Rightarrow> Inl e
      | Inr required_skills \<Rightarrow>
     (case py_num (dict_get job_reqs ''min_experience'' (PNum 0)) of
        Inl e \<Rightarrow> Inl e
      | Inr exp_required \<Rightarrow>
     (case py_str (dict_get job_reqs ''education_level'' (PStr [])) of
        Inl e \<Rightarrow> Inl e
      | Inr education_required \<Rightarrow>
          (let s = skill_match_ratio (skills parsed) required_skills;
               x = experience_match_ratio (to_double (experience_years parsed)) (to_double exp_required);
               d = education_match_ratio (lower (education parsed)) (lower education_required)
           in Inr (weighted_score (to_double s) (to_double x) (to_double d))))))"

subsection \<open>Dates\<close>

text \<open>
  \<^verbatim>\<open>datetime.strptime(s, "%Y-%m-%d")\<close> of the standard library: the format's regular expression
  must match all of \<open>s\<close>, and the three numbers must be a date of the calendar.
\<close>

definition rx_ymd :: rx where
  "rx_ymd = seqs
     [Grp 1 (rep 4 (Chr is_digit)), lit ''-'',
      Grp 2 (alts [Seq (lit ''1'') (Chr (code_in 48 50)), Seq (lit ''0'') (Chr (code_in 49 57)),
                   Chr (code_in 49 57)]),
      lit ''-'',
      Grp 3 (alts [Seq (lit ''3'') (Chr (code_in 48 49)), Seq (Chr (code_in 49 50)) (Chr is_digit),
                   Seq (lit ''0'') (Chr (code_in 49 57)), Chr (code_in 49 57),
                   Seq (lit '' '') (Chr (code_in 49 57))])]"

definition int_of_str :: "string \<Rightarrow> nat" where
  "int_of_str s = foldl (\<lambda>a c. 10 * a + (of_char c - 48)) 0 (filter is_digit s)"

definition days_in_month :: "nat \<Rightarrow> nat \<Rightarrow> nat" where
  "days_in_month y m =
     (if m = 2 then (if y mod 4 = 0 \<and> (y mod 100 \<noteq> 0 \<or> y mod 400 = 0) then 29 else 28)
      else if m \<in> {4, 6, 9, 11} then 30 else 31)"

declare re_sub_empty.simps [simp del]

definition strptime_ymd :: "string \<Rightarrow> py_error + nat \<times> nat \<times> nat" where
  "strptime_ymd s =
     (case re_match rx_ymd s of
        None \<Rightarrow> Inl (ValueError ''time data does not match format'')
      | Some m \<Rightarrow>
          if fst (snd m) \<noteq> [] then Inl (ValueError ''unconverted data remains'')
          else let y = int_of_str (group (snd (snd m)) 1);
                   mo = int_of_str (group (snd (snd m)) 2);
                   d = int_of_str (group (snd (snd m)) 3)
               in if 1 \<le> y \<and> 1 \<le> mo \<and> mo \<le> 12 \<and> 1 \<le> d \<and> d \<le> days_in_month y mo
                  then Inr (y, mo, d) else Inl (ValueError ''date out of range''))"

definition validate_date_str :: "string \<Rightarrow> bool" where
  "validate_date_str date_str = (case strptime_ymd date_str of Inr _ \<Rightarrow> True | Inl _ \<Rightarrow> False)"

subsection \<open>Collaborators\<close>

text \<open>
  The mock services act on the outside world only through the calls made to them and through
  the ATS store. The model keeps the store and the sequence of the calls. A notification text
  that formats a float is kept as its parts.
\<close>

datatype message = Text string | BelowThreshold string real

datatype effect =
    FetchAvailability string
  | CreateEvent string string string
  | SendEmail string string message
  | SendMessage string message
  | Upsert string

record world =
  ats_db :: "string \<rightharpoonup> parsed_resume"
  effects :: "effect list"

text \<open>
  What the run takes from outside: \<open>slot_stamp d h\<close> is the formatted time \<open>h\<close> hours after
  the start of the preferred date \<open>d\<close> (after the current time when \<open>d\<close> is no date), and
  \<open>randint\<close> is the number \<^verbatim>\<open>random.randint(1000, 9999)\<close> would return.
\<close>

record env =
  slot_stamp :: "string \<Rightarrow> nat \<Rightarrow> string"
  randint :: nat

function str_nat :: "nat \<Rightarrow> string" where
  "str_nat n = (if n < 10 then [char_of (48 + n)] else str_nat (n div 10) @ [char_of (48 + n mod 10)])"
  by pat_completeness auto
termination
  by (relation "measure id") auto

definition fetch_availability :: "env \<Rightarrow> string \<Rightarrow> world \<Rightarrow> string list \<times> world" where
  "fetch_availability ev preferred_date w =
     ([slot_stamp ev preferred_date 9, slot_stamp ev preferred_date 11, slot_stamp ev preferred_date 14],
      w\<lparr>effects := effects w @ [FetchAvailability preferred_date]\<rparr>)"

definition create_event :: "string \<Rightarrow> string \<Rightarrow> string \<Rightarrow> world \<Rightarrow> string \<times> world" where
  "create_event candidate_name candidate_email slot w =
     (''https://calendar.example.com/event/''
        @ map (\<lambda>c. if c = CHR '' '' then CHR ''_'' else c) candidate_name @ ''/'' @ slot,
      w\<lparr>effects := effects w @ [CreateEvent candidate_name candidate_email slot]\<rparr>)"

definition send_email :: "string \<Rightarrow> string \<Rightarrow> message \<Rightarrow> world \<Rightarrow> bool \<times> world" where
  "send_email to_email subject body w =
     (True, w\<lparr>effects := effects w @ [SendEmail to_email subject body]\<rparr>)"

definition send_message :: "string \<Rightarrow> message \<Rightarrow> world \<Rightarrow> bool \<times> world" where
  "send_message channel msg w = (True, w\<lparr>effects := effects w @ [SendMessage channel msg]\<rparr>)"

definition upsert_candidate :: "env \<Rightarrow> parsed_resume \<Rightarrow> world \<Rightarrow> string \<times> world" where
  "upsert_candidate ev candidate_data w =
     (let candidate_id = (if email candidate_data \<noteq> [] then email candidate_data
                          else ''id_'' @ str_nat (randint ev))
      in (''success'',
          w\<lparr>ats_db := (ats_db w)(candidate_id \<mapsto> candidate_data),
            effects := effects w @ [Upsert candidate_id]\<rparr>))"

subsection \<open>Workflow steps\<close>

datatype details = Interview string string | Status string

record action_entry =
  action :: string
  details :: details

record workflow_log =
  parsed_resume :: parsed_resume
  score_result :: score_result
  actions :: "action_entry list"

record workflow_result =
  ok :: bool
  workflow :: "workflow_log option"
  error :: "py_error option"

definition schedule_interview :: "env \<Rightarrow> string \<Rightarrow> string \<Rightarrow> string \<Rightarrow> world \<Rightarrow> details \<times> world" where
  "schedule_interview ev candidate_name candidate_email preferred_date w =
     (let (available_slots, w1) = fetch_availability ev preferred_date w;
          confirmed_slot = (case available_slots of [] \<Rightarrow> ''No slots available'' | s # _ \<Rightarrow> s)
      in if confirmed_slot \<noteq> ''No slots available''
         then let (calendar_event_link, w2) = create_event candidate_name candidate_email confirmed_slot w1;
                  (sent, w3) = send_email candidate_email ''Interview Scheduled''
                     (Text (''Dear '' @ candidate_name @ '', your interview is scheduled at ''
                              @ confirmed_slot @ ''. Link: '' @ calendar_event_link)) w2
              in (Interview confirmed_slot calendar_event_link, w3)
         else (Interview confirmed_slot [], w1))"

definition notify_hr :: "message \<Rightarrow> world \<Rightarrow> details \<times> world" where
  "notify_hr msg w =
     (let (slack_status, w1) = send_message ''#hr-channel'' msg w;
          (email_status, w2) = send_email ''hr@example.com'' ''Notification from HireFlow AI'' msg w1
      in (Status (if slack_status \<and> email_status then ''success'' else ''failure''), w2))"

definition update_ats :: "env \<Rightarrow> parsed_resume \<Rightarrow> world \<Rightarrow> details \<times> world" where
  "update_ats ev candidate_data w =
     (let (status, w1) = upsert_candidate ev candidate_data w in (Status status, w1))"

subsection \<open>Workflow orchestrator\<close>

definition on_resume_submit ::
  "env \<Rightarrow> string \<Rightarrow> pydict \<Rightarrow> string \<Rightarrow> world \<Rightarrow> (py_error + workflow_log) \<times> world" where
  "on_resume_submit ev resume_text job_reqs preferred_interview_date w =
     (let parsed = parse_resume resume_text
      in case score_candidate parsed job_reqs of
           Inl e \<Rightarrow> (Inl e, w)
         | Inr scored \<Rightarrow>
             (let (first, w1) =
                    (if score scored \<ge> 60
                     then let (interview_info, w') =
                                schedule_interview ev (name parsed) (email parsed) preferred_interview_date w
                          in (\<lparr>action = ''schedule_interview'', details = interview_info\<rparr>, w')
                     else let (notify_result, w') =
                                notify_hr (BelowThreshold (name parsed) (score scored)) w
                          in (\<lparr>action = ''notify_hr'', details = notify_result\<rparr>, w'));
                  (ats_result, w2) = update_ats ev parsed w1;
                  (final_notify, w3) = notify_hr (Text ''Candidate processing completed.'') w2
              in (Inr \<lparr>parsed_resume = parsed, score_result = scored,
                        actions = [first, \<lparr>action = ''update_ats'', details = ats_result\<rparr>,
                                   \<lparr>action = ''notify_hr'', details = final_notify\<rparr>]\<rparr>,
                  w3)))"

text \<open>The \<^verbatim>\<open>try\<close> block of \<^verbatim>\<open>process_workflow\<close>, an exception as \<open>Inl\<close>.\<close>

definition process_workflow_body ::
  "env \<Rightarrow> string \<Rightarrow> pydict \<Rightarrow> string \<Rightarrow> world \<Rightarrow> (py_error + workflow_result) \<times> world" where
  "process_workflow_body ev resume_text job_reqs preferred_interview_date w =
     (if preferred_interview_date \<noteq> [] \<and> \<not> validate_date_str preferred_interview_date
      then (Inl (ValueError ''preferred_interview_date must be YYYY-MM-DD''), w)
      else case on_resume_submit ev resume_text job_reqs preferred_interview_date w of
             (Inl e, w') \<Rightarrow> (Inl e, w')
           | (Inr result, w') \<Rightarrow> (Inr \<lparr>ok = True, workflow = Some result, error = None\<rparr>, w'))"

text \<open>\<^verbatim>\<open>except Exception as e\<close>: every exception of the body becomes a failure result.\<close>

definition process_workflow ::
  "env \<Rightarrow> string \<Rightarrow> pydict \<Rightarrow> string \<Rightarrow> world \<Rightarrow> (py_error + workflow_result) \<times> world" where
  "process_workflow ev resume_text job_reqs preferred_interview_date w =
     (case process_workflow_body ev resume_text job_reqs preferred_interview_date w of
        (Inl e, w') \<Rightarrow> (Inr \<lparr>ok = False, workflow = None, error = Some e\<rparr>, w')
      | (Inr r, w') \<Rightarrow> (Inr r, w'))"

text \<open>In a list, some \<open>a\<close> comes before some later \<open>b\<close>.\<close>

fun occurs_before :: "'a \<Rightarrow> 'a \<Rightarrow> 'a list \<Rightarrow> bool" where
  "occurs_before a b [] = False"
| "occurs_before a b (x # xs) = ((x = a \<and> b \<in> set xs) \<or> occurs_before a b xs)"

subsection \<open>Sample inputs\<close>

text \<open>
  The education ratio as the specification words it: the candidate's text and the required
  level both go through the first-matching-keyword substring search.
\<close>

definition spec_education_ratio :: "string \<Rightarrow> string \<Rightarrow> real" where
  "spec_education_ratio edu_text level =
     (let candidate_rank = candidate_edu_score education_rank (lower edu_text);
          required_rank = candidate_edu_score education_rank (lower level)
      in min (if required_rank > 0 then real candidate_rank / real required_rank else 1) 1)"

text \<open>A sample candidate record.\<close>

definition candidate_A :: parsed_resume where
  "candidate_A = \<lparr> name = ''Ann Lee'', email = ''ann@example.com'', phone = [],
       skills = [''aws'', ''python''], experience_years = 3,
       education = ''Bachelor of Science'', work_history = [] \<rparr>"


definition resume1 :: string where
  "resume1 = ''Resume'' @ [CHR 0x0A] @ ''Name: Unknown''"

definition resume2 :: string where
  "resume2 = ''  Full Name -  Ann Lee  '' @ [CHR 0x0A] @ ''ann.lee@mail.example.com, bad@x.y1 +1 555-123-4567''
      @ [CHR 0x0A] @ ''Education: Master of Science'' @ [CHR 0x0A] @ ''12 years of Python and AWS''"

text \<open>
  An outside whose clock reads midnight of 1 May 2024 (UTC): a slot is \<open>h\<close> hours after the
  start of the preferred date when \<^verbatim>\<open>strptime\<close> accepts it, of the current day otherwise,
  printed by \<^verbatim>\<open>strftime\<close> (the year unpadded, as on glibc).
\<close>

definition two_digits :: "nat \<Rightarrow> string" where
  "two_digits n = (if n < 10 then ''0'' else []) @ str_nat n"

definition env0 :: env where
  "env0 =
     \<lparr>slot_stamp = (\<lambda>d h.
          (case strptime_ymd d of
             Inr (y, mo, dd) \<Rightarrow> str_nat y @ ''-'' @ two_digits mo @ ''-'' @ two_digits dd
           | Inl _ \<Rightarrow> ''2024-05-01'')
          @ ''T'' @ two_digits h @ '':00:00''),
      randint = 4711\<rparr>"

definition world0 :: world where
  "world0 = \<lparr>ats_db = Map.empty, effects = []\<rparr>"

text \<open>Two runs of the workflow and the results they return.\<close>

definition run_low :: "(py_error + workflow_result) \<times> world" where
  "run_low = process_workflow env0 [] (job_requirements [''python''] 5 []) ''2024-05-01'' world0"

definition run_high :: "(py_error + workflow_result) \<times> world" where
  "run_high = process_workflow env0 ''python'' (job_requirements [''python''] 0 []) [] world0"

definition result_low :: workflow_result where
  "result_low = \<lparr>ok = True,
      workflow = Some \<lparr>parsed_resume = \<lparr>name = ''Unknown'', email = [], phone = [], skills = [],
                  experience_years = 0, education = ''Not specified'', work_history = []\<rparr>,
               score_result = \<lparr>score = 20, skill_match = 0, experience_match = 0\<rparr>,
               actions = [\<lparr>action = ''notify_hr'', details = Status ''success''\<rparr>,
                  \<lparr>action = ''update_ats'', details = Status ''success''\<rparr>,
                  \<lparr>action = ''notify_hr'', details = Status ''success''\<rparr>]\<rparr>,
      error = None\<rparr>"

definition result_high :: workflow_result where
  "result_high = \<lparr>ok = True,
      workflow = Some \<lparr>parsed_resume = \<lparr>name = ''python'', email = [], phone = [], skills = [''python''],
                  experience_years = 0, education = ''Not specified'', work_history = []\<rparr>,
               score_result = \<lparr>score = 100, skill_match = 100, experience_match = 100\<rparr>,
               actions = [\<lparr>action = ''schedule_interview'',
                     details = Interview ''2024-05-01T09:00:00''
                       ''https://calendar.example.com/event/python/2024-05-01T09:00:00''\<rparr>,
                  \<lparr>action = ''update_ats'', details = Status ''success''\<rparr>,
                  \<lparr>action = ''notify_hr'', details = Status ''success''\<rparr>]\<rparr>,
      error = None\<rparr>"

text \<open>
  An ISO date as the specification words it: \<^verbatim>\<open>YYYY-MM-DD\<close>, four digits, two digits and two
  digits that name a day of the calendar.
\<close>

definition iso_ymd_date :: "string \<Rightarrow> bool" where
  "iso_ymd_date s =
     (case s of
        [y1, y2, y3, y4, h1, m1, m2, h2, d1, d2] \<Rightarrow>
          list_all is_digit [y1, y2, y3, y4, m1, m2, d1, d2] \<and> h1 = CHR ''-'' \<and> h2 = CHR ''-''
          \<and> 1 \<le> int_of_str [m1, m2] \<and> int_of_str [m1, m2] \<le> 12
          \<and> 1 \<le> int_of_str [d1, d2]
          \<and> int_of_str [d1, d2] \<le> days_in_month (int_of_str [y1, y2, y3, y4]) (int_of_str [m1, m2])
      | _ \<Rightarrow> False)"

text \<open>The low-scoring run again, with the date written without padding.\<close>

definition run_unpadded :: "(py_error + workflow_result) \<times> world" where
  "run_unpadded = process_workflow env0 [] (job_requirements [''python''] 5 []) ''2024-1-5'' world0"

section \<open>Properties of the scorer\<close>


lemma round_half_even_of_int: "round_half_even (of_int n) = n"
  by (simp add: round_half_even_def Let_def)








lemma to_double_0: "to_double 0 = 0"
  by (simp add: to_double_def)







lemma round2_0: "round2 0 = 0"
  using round_half_even_of_int [of 0] by (simp add: round2_def to_double_0)







lemma education_match_ratio_range: "0 \<le> education_match_ratio a b \<and> education_match_ratio a b \<le> 1"
  by (simp add: education_match_ratio_def)

lemma py_set_strs: "py_set (PList (map PStr rs)) = Inr (map PStr (remdups rs))"
proof -
  have h: "list_all hashable (map PStr rs)" by (induction rs) simp_all
  have k: "map py_key (map PStr rs) = map PStr rs" by simp
  have r: "remdups (map PStr rs) = map PStr (remdups rs)" by (induction rs) auto
  have "py_set (PList (map PStr rs)) = Inr (remdups (map py_key (map PStr rs)))"
    using h by (simp del: map_map)
  then show ?thesis by (simp only: k r)
qed


lemma score_candidate_typed:
  "score_candidate p (job_requirements rs m l) =
     Inr (weighted_score (to_double (skill_match_ratio (skills p) (map PStr (remdups rs))))
            (to_double (experience_match_ratio (to_double (experience_years p)) (to_double m)))
            (to_double (education_match_ratio (lower (education p)) (lower l))))"
  by (simp add: score_candidate_def job_requirements_def dict_get_def py_set_strs Let_def del: py_set.simps)










lemma str_in_iff: "str_in p s \<longleftrightarrow> (\<exists>a b. s = a @ p @ b)"
proof (induction s)
  case Nil
  then show ?case by auto
next
  case (Cons c cs)
  show ?case
  proof
    assume "str_in p (c # cs)"
    then consider "prefix p (c # cs)" | "str_in p cs" by auto
    then show "\<exists>a b. c # cs = a @ p @ b"
    proof cases
      case 1
      then obtain b where "c # cs = p @ b" by (auto simp: prefix_def)
      then have "c # cs = [] @ p @ b" by simp
      then show ?thesis by blast
    next
      case 2
      with Cons obtain a b where "cs = a @ p @ b" by blast
      then have "c # cs = (c # a) @ p @ b" by simp
      then show ?thesis by blast
    qed
  next
    assume "\<exists>a b. c # cs = a @ p @ b"
    then obtain a b where ab: "c # cs = a @ p @ b" by blast
    show "str_in p (c # cs)"
    proof (cases a)
      case Nil
      with ab have "prefix p (c # cs)" by (simp add: prefix_def)
      then show ?thesis by simp
    next
      case (Cons x a')
      with ab have "cs = a' @ p @ b" by simp
      with Cons.IH have "str_in p cs" by blast
      then show ?thesis by simp
    qed
  qed
qed

lemma candidate_edu_score_find:
  "candidate_edu_score tbl t = (case find (\<lambda>kv. str_in (fst kv) t) tbl of Some kv \<Rightarrow> snd kv | None \<Rightarrow> 0)"
  by (induction tbl t rule: candidate_edu_score.induct) auto

lemma candidate_edu_score_none:
  "\<forall>k \<in> fst ` set tbl. \<not> str_in k t \<Longrightarrow> candidate_edu_score tbl t = 0"
  by (induction tbl t rule: candidate_edu_score.induct) auto

lemma vocabulary_agree_all:
  "list_all (\<lambda>w. candidate_edu_score education_rank w = required_edu_score w)
     ([] # map fst education_rank)"
  by code_simp

lemma vocabulary_agree:
  assumes "w \<in> fst ` set education_rank \<union> {[]}"
  shows "candidate_edu_score education_rank w = required_edu_score w"
proof -
  from assms have "w \<in> set ([] # map fst education_rank)" by auto
  with vocabulary_agree_all show ?thesis unfolding list_all_iff by blast
qed



lemma candidate_A_score:
  "score_candidate candidate_A (job_requirements [''python'', ''java''] 5 ''Master'')
     = Inr \<lparr> score = 60, skill_match = 50, experience_match = 60 \<rparr>"
  by code_simp


text \<open>
  Claim C2, as stated, fails: the required level \<^verbatim>\<open>Bachelor degree\<close> contains the keyword
  \<^verbatim>\<open>bachelor\<close> but is no key of the table, so the code ranks it 0 and the ratio is 1.0, where
  the substring search of the specification ranks it 4 and gives 1/4 for a high-school candidate.
\<close>

theorem education_required_not_substring_search:
  "education_match_ratio (lower ''High School'') (lower ''Bachelor degree'') = 1
   \<and> spec_education_ratio ''High School'' ''Bachelor degree'' = 1 / 4"
  by code_simp

text \<open>
  Claim C2, amended. The table is the fixed one. The candidate's rank is the rank of the first
  table key, in table order, that occurs in the lower-cased education text, and 0 when no key
  occurs. The required rank is the table entry whose key equals the lower-cased
  \<^verbatim>\<open>education_level\<close>, and 0 when it is no key. The ratio is candidate rank / required rank when
  the required rank is positive, else 1, cut off at 1, and lies between 0 and 1. When the
  lower-cased level is a key of the table or empty, this is the ratio the specification words.
\<close>

theorem education_ratio_as_coded:
  "education_rank = [(''high school'', 1), (''diploma'', 2), (''associate'', 3), (''bachelor'', 4),
      (''master'', 5), (''phd'', 6), (''doctorate'', 6)]
   \<and> candidate_edu_score education_rank (lower e) =
       (case find (\<lambda>kv. str_in (fst kv) (lower e)) education_rank of Some kv \<Rightarrow> snd kv | None \<Rightarrow> 0)
   \<and> ((\<forall>k \<in> fst ` set education_rank. \<not> str_in k (lower e)) \<longrightarrow>
         candidate_edu_score education_rank (lower e) = 0)
   \<and> required_edu_score (lower l) =
       (case map_of education_rank (lower l) of Some rank \<Rightarrow> rank | None \<Rightarrow> 0)
   \<and> education_match_ratio (lower e) (lower l) =
       min (if required_edu_score (lower l) > 0
            then real (candidate_edu_score education_rank (lower e)) / real (required_edu_score (lower l))
            else 1) 1
   \<and> 0 \<le> education_match_ratio (lower e) (lower l)
   \<and> education_match_ratio (lower e) (lower l) \<le> 1
   \<and> (lower l \<in> fst ` set education_rank \<union> {[]} \<longrightarrow>
         education_match_ratio (lower e) (lower l) = spec_education_ratio e l)"
proof -
  have t: "education_rank = [(''high school'', 1), (''diploma'', 2), (''associate'', 3), (''bachelor'', 4),
      (''master'', 5), (''phd'', 6), (''doctorate'', 6)]"
    by (fact education_rank_def)
  have f: "candidate_edu_score education_rank (lower e) =
       (case find (\<lambda>kv. str_in (fst kv) (lower e)) education_rank of Some kv \<Rightarrow> snd kv | None \<Rightarrow> 0)"
    by (fact candidate_edu_score_find)
  have n: "(\<forall>k \<in> fst ` set education_rank. \<not> str_in k (lower e)) \<longrightarrow>
         candidate_edu_score education_rank (lower e) = 0"
    using candidate_edu_score_none [of education_rank "lower e"] by blast
  have q: "required_edu_score (lower l) =
       (case map_of education_rank (lower l) of Some rank \<Rightarrow> rank | None \<Rightarrow> 0)"
    by (fact required_edu_score_def)
  have m: "education_match_ratio (lower e) (lower l) =
       min (if required_edu_score (lower l) > 0
            then real (candidate_edu_score education_rank (lower e)) / real (required_edu_score (lower l))
            else 1) 1"
    by (fact education_match_ratio_def)
  have b: "0 \<le> education_match_ratio (lower e) (lower l)" "education_match_ratio (lower e) (lower l) \<le> 1"
    using education_match_ratio_range [of "lower e" "lower l"] by blast+
  have a: "lower l \<in> fst ` set education_rank \<union> {[]} \<longrightarrow>
         education_match_ratio (lower e) (lower l) = spec_education_ratio e l"
    using vocabulary_agree [of "lower l"]
    unfolding education_match_ratio_def spec_education_ratio_def Let_def by presburger
  from t f n q m b a show ?thesis by blast
qed

text \<open>Claim C2, amended, at a text with no keyword against the level \<^verbatim>\<open>Master\<close>.\<close>

theorem education_ratio_as_coded_witness:
  "\<not> (\<exists>k \<in> fst ` set education_rank. str_in k (lower ''Self taught''))
   \<and> candidate_edu_score education_rank (lower ''Self taught'') = 0
   \<and> lower ''Master'' \<in> fst ` set education_rank \<union> {[]}
   \<and> education_match_ratio (lower ''Self taught'') (lower ''Master'') = spec_education_ratio ''Self taught'' ''Master''"
proof -
  have h1: "\<forall>k \<in> fst ` set education_rank. \<not> str_in k (lower ''Self taught'')" by code_simp
  have h2: "lower ''Master'' \<in> fst ` set education_rank \<union> {[]}" by code_simp
  from education_ratio_as_coded [of "''Self taught''" "''Master''"] h1 h2 show ?thesis by blast
qed

text \<open>
  Claim C3, as stated, fails: with no required skill the sample candidate's \<open>skill_match\<close>
  is 0, not 100.
\<close>

theorem empty_required_skills_not_perfect:
  "\<not> isl (score_candidate candidate_A (job_requirements [] 0 []))
   \<and> skill_match (projr (score_candidate candidate_A (job_requirements [] 0 []))) = 0
   \<and> skill_match (projr (score_candidate candidate_A (job_requirements [] 0 []))) \<noteq> 100"
  by code_simp

text \<open>
  Claim C3, amended. With an empty \<^verbatim>\<open>skills\<close> requirement the skill ratio is 0 / max(0, 1) = 0
  for every candidate: \<open>skill_match\<close> is 0 and the skills contribute nothing to the score.
\<close>

theorem empty_required_skills_ratio_zero:
  "skill_match_ratio (skills p) [] = 0
   \<and> float_mul (to_double (4 / 10)) (to_double 0) = 0
   \<and> score_candidate p (job_requirements [] m l) =
       Inr \<lparr> score = round2 (float_mul 100
                         (float_add (float_add (float_mul (to_double (4 / 10)) 0)
                              (float_mul (to_double (4 / 10))
                                 (to_double (experience_match_ratio (to_double (experience_years p))
                                               (to_double m)))))
                            (float_mul (to_double (2 / 10))
                               (to_double (education_match_ratio (lower (education p)) (lower l)))))),
              skill_match = 0,
              experience_match =
                round2 (float_mul (to_double (experience_match_ratio (to_double (experience_years p))
                                                (to_double m))) 100) \<rparr>"
proof -
  have z: "skill_match_ratio (skills p) [] = 0" by (simp add: skill_match_ratio_def)
  have m0: "float_mul (to_double (4 / 10)) (to_double 0) = 0"
    by (simp add: float_mul_def to_double_0)
  have t: "to_double (skill_match_ratio (skills p) (map PStr (remdups []))) = 0"
    by (simp add: skill_match_ratio_def to_double_0)
  have sm: "round2 (float_mul 0 100) = 0"
    by (simp add: float_mul_def to_double_0 round2_0)
  have "score_candidate p (job_requirements [] m l) =
     Inr (weighted_score 0
            (to_double (experience_match_ratio (to_double (experience_years p)) (to_double m)))
            (to_double (education_match_ratio (lower (education p)) (lower l))))"
    by (simp only: score_candidate_typed t)
  then have run: "score_candidate p (job_requirements [] m l) =
       Inr \<lparr> score = round2 (float_mul 100
                         (float_add (float_add (float_mul (to_double (4 / 10)) 0)
                              (float_mul (to_double (4 / 10))
                                 (to_double (experience_match_ratio (to_double (experience_years p))
                                               (to_double m)))))
                            (float_mul (to_double (2 / 10))
                               (to_double (education_match_ratio (lower (education p)) (lower l)))))),
              skill_match = 0,
              experience_match =
                round2 (float_mul (to_double (experience_match_ratio (to_double (experience_years p))
                                                (to_double m))) 100) \<rparr>"
    by (simp only: weighted_score_def weighted_sum_def sm)
  from z m0 run show ?thesis by (intro conjI)
qed



section \<open>Properties of the matcher\<close>

text \<open>A match ends inside the text it started in, and sets only the groups of its pattern.\<close>

lemma ms_suffix_all:
  "\<forall>st' \<in> set (ms r st). suffix (fst (snd st')) (fst (snd st))"
proof (induction r st rule: ms.induct)
  case (1 P p s g)
  then show ?case by (cases s) (simp_all add: ms.simps suffix_Cons)
next
  case (2 st)
  then show ?case by (simp add: ms.simps)
next
  case (3 a b st)
  show ?case
  proof
    fix st' assume "st' \<in> set (ms (Seq a b) st)"
    then obtain mid where m: "mid \<in> set (ms a st)" and s: "st' \<in> set (ms b mid)"
      by (auto simp: ms.simps(3))
    from "3.IH"(1) m have "suffix (fst (snd mid)) (fst (snd st))" by (rule bspec)
    moreover from "3.IH"(2) [OF m] s have "suffix (fst (snd st')) (fst (snd mid))" by (rule bspec)
    ultimately show "suffix (fst (snd st')) (fst (snd st))"
      using suffix_order.trans by blast
  qed
next
  case (4 a b st)
  show ?case
  proof
    fix st' assume "st' \<in> set (ms (Alt a b) st)"
    then consider "st' \<in> set (ms a st)" | "st' \<in> set (ms b st)" by (auto simp: ms.simps(4))
    then show "suffix (fst (snd st')) (fst (snd st))"
    proof cases
      case 1
      with "4.IH"(1) show ?thesis by (rule bspec)
    next
      case 2
      with "4.IH"(2) show ?thesis by (rule bspec)
    qed
  qed
next
  case (5 a st)
  show ?case
  proof
    fix st' assume "st' \<in> set (ms (Star a) st)"
    then consider "st' = st"
      | mid where "mid \<in> set (filter (\<lambda>st'. length (fst (snd st')) < length (fst (snd st))) (ms a st))"
          "st' \<in> set (ms (Star a) mid)"
      by (subst (asm) ms.simps(5)) auto
    then show "suffix (fst (snd st')) (fst (snd st))"
    proof cases
      case 1
      then show ?thesis by simp
    next
      case 2
      from 2(1) have m: "mid \<in> set (ms a st)" by simp
      from "5.IH"(1) m have "suffix (fst (snd mid)) (fst (snd st))" by (rule bspec)
      moreover from "5.IH"(2) [OF 2(1)] 2(2) have "suffix (fst (snd st')) (fst (snd mid))" by (rule bspec)
      ultimately show ?thesis using suffix_order.trans by blast
    qed
  qed
next
  case (6 n a p s g)
  show ?case
  proof
    fix st' assume "st' \<in> set (ms (Grp n a) (p, s, g))"
    then obtain m where m: "m \<in> set (ms a (p, s, g))" and e: "fst (snd st') = fst (snd m)"
      by (auto simp: ms.simps(6) case_prod_beta)
    from "6.IH" m have "suffix (fst (snd m)) (fst (snd (p, s, g)))" by (rule bspec)
    with e show "suffix (fst (snd st')) (fst (snd (p, s, g)))" by simp
  qed
next
  case (7 p s g)
  then show ?case by (simp add: ms.simps)
next
  case (8 p s g)
  then show ?case by (simp add: ms.simps)
next
  case (9 p s g)
  then show ?case by (simp add: ms.simps)
qed

lemma ms_groups_all:
  "\<forall>st' \<in> set (ms r st). \<exists>new. snd (snd st') = new @ snd (snd st) \<and> fst ` set new \<subseteq> groups_of r"
proof (induction r st rule: ms.induct)
  case (1 P p s g)
  then show ?case by (cases s) (simp_all add: ms.simps)
next
  case (2 st)
  then show ?case by (simp add: ms.simps)
next
  case (3 a b st)
  show ?case
  proof
    fix st' assume "st' \<in> set (ms (Seq a b) st)"
    then obtain mid where m: "mid \<in> set (ms a st)" and s: "st' \<in> set (ms b mid)"
      by (auto simp: ms.simps(3))
    from "3.IH"(1) m obtain n1 where n1: "snd (snd mid) = n1 @ snd (snd st)" "fst ` set n1 \<subseteq> groups_of a"
      by blast
    from "3.IH"(2) [OF m] s obtain n2 where n2: "snd (snd st') = n2 @ snd (snd mid)" "fst ` set n2 \<subseteq> groups_of b"
      by blast
    have "snd (snd st') = (n2 @ n1) @ snd (snd st)" using n1 n2 by simp
    moreover have "fst ` set (n2 @ n1) \<subseteq> groups_of (Seq a b)" using n1 n2 by auto
    ultimately show "\<exists>new. snd (snd st') = new @ snd (snd st) \<and> fst ` set new \<subseteq> groups_of (Seq a b)"
      by blast
  qed
next
  case (4 a b st)
  show ?case
  proof
    fix st' assume "st' \<in> set (ms (Alt a b) st)"
    then consider "st' \<in> set (ms a st)" | "st' \<in> set (ms b st)" by (auto simp: ms.simps(4))
    then show "\<exists>new. snd (snd st') = new @ snd (snd st) \<and> fst ` set new \<subseteq> groups_of (Alt a b)"
    proof cases
      case 1
      with "4.IH"(1) obtain n1 where "snd (snd st') = n1 @ snd (snd st)" "fst ` set n1 \<subseteq> groups_of a"
        by blast
      then show ?thesis by auto
    next
      case 2
      with "4.IH"(2) obtain n1 where "snd (snd st') = n1 @ snd (snd st)" "fst ` set n1 \<subseteq> groups_of b"
        by blast
      then show ?thesis by auto
    qed
  qed
next
  case (5 a st)
  show ?case
  proof
    fix st' assume "st' \<in> set (ms (Star a) st)"
    then consider "st' = st"
      | mid where "mid \<in> set (filter (\<lambda>st'. length (fst (snd st')) < length (fst (snd st))) (ms a st))"
          "st' \<in> set (ms (Star a) mid)"
      by (subst (asm) ms.simps(5)) auto
    then show "\<exists>new. snd (snd st') = new @ snd (snd st) \<and> fst ` set new \<subseteq> groups_of (Star a)"
    proof cases
      case 1
      then show ?thesis by simp
    next
      case 2
      from 2(1) have m: "mid \<in> set (ms a st)" by simp
      from "5.IH"(1) m obtain n1 where n1: "snd (snd mid) = n1 @ snd (snd st)" "fst ` set n1 \<subseteq> groups_of a"
        by blast
      from "5.IH"(2) [OF 2(1)] 2(2) obtain n2
        where n2: "snd (snd st') = n2 @ snd (snd mid)" "fst ` set n2 \<subseteq> groups_of (Star a)"
        by blast
      have "snd (snd st') = (n2 @ n1) @ snd (snd st)" using n1 n2 by simp
      moreover have "fst ` set (n2 @ n1) \<subseteq> groups_of (Star a)" using n1 n2 by auto
      ultimately show ?thesis by blast
    qed
  qed
next
  case (6 n a p s g)
  show ?case
  proof
    fix st' assume "st' \<in> set (ms (Grp n a) (p, s, g))"
    then obtain m where m: "m \<in> set (ms a (p, s, g))"
      and e: "snd (snd st') = (n, take (length s - length (fst (snd m))) s) # snd (snd m)"
      by (auto simp: ms.simps(6) case_prod_beta)
    from "6.IH" m obtain n1 where n1: "snd (snd m) = n1 @ g" "fst ` set n1 \<subseteq> groups_of a"
      by fastforce
    have "snd (snd st') = ((n, take (length s - length (fst (snd m))) s) # n1) @ snd (snd (p, s, g))"
      using e n1 by simp
    moreover have "fst ` set ((n, take (length s - length (fst (snd m))) s) # n1) \<subseteq> groups_of (Grp n a)"
      using n1 by auto
    ultimately show "\<exists>new. snd (snd st') = new @ snd (snd (p, s, g)) \<and> fst ` set new \<subseteq> groups_of (Grp n a)"
      by blast
  qed
next
  case (7 p s g)
  then show ?case by (simp add: ms.simps)
next
  case (8 p s g)
  then show ?case by (simp add: ms.simps)
next
  case (9 p s g)
  then show ?case by (simp add: ms.simps)
qed

lemma groups_of_lit: "groups_of (lit s) = {}"
  by (induction s) (simp_all add: lit_def)

section \<open>Properties of the extractors, the parser and the workflow\<close>

text \<open>
  Every number that \<open>rx_experience\<close> captures begins with a digit, so \<^verbatim>\<open>m[0]\<close> and \<^verbatim>\<open>float\<close>
  never raise; and since only that digit is converted, no resume parses to more than 9 years.
\<close>

lemma experience_group_digit:
  assumes "st' \<in> set (ms rx_experience (p, s, []))"
  shows "\<exists>c cs. group (snd (snd st')) 1 = c # cs \<and> is_digit c"
proof -
  define D where "D = Star (Chr is_digit)"
  define F where "F = optional (Seq (lit ''.'') (many1 (Chr is_digit)))"
  define R where "R = Seq (optional (lit ''+'')) (Seq (Star (Chr is_space))
      (Seq (alts [lit ''years'', lit ''yrs'', lit ''y'']) (Seq WordB Eps)))"
  have rx: "rx_experience = Seq (Grp 1 (Seq (Seq (Chr is_digit) D) F)) R"
    by (simp add: rx_experience_def seqs_def many1_def D_def F_def R_def)
  have gR: "groups_of R = {}"
    by (simp add: R_def optional_def alts_def groups_of_lit)
  from assms obtain mid where mid: "mid \<in> set (ms (Grp 1 (Seq (Seq (Chr is_digit) D) F)) (p, s, []))"
    and st': "st' \<in> set (ms R mid)"
    unfolding rx by (auto simp: ms.simps(3))
  from mid obtain m where m: "m \<in> set (ms (Seq (Seq (Chr is_digit) D) F) (p, s, []))"
    and cm: "snd (snd mid) = (1, take (length s - length (fst (snd m))) s) # snd (snd m)"
    by (auto simp: ms.simps(6) case_prod_beta)
  from m obtain m2 where m2: "m2 \<in> set (ms (Seq (Chr is_digit) D) (p, s, []))"
    and mF: "m \<in> set (ms F m2)"
    by (auto simp: ms.simps(3))
  from m2 obtain m3 where m3: "m3 \<in> set (ms (Chr is_digit) (p, s, []))" and mD: "m2 \<in> set (ms D m3)"
    by (auto simp: ms.simps(3))
  from m3 obtain c cs where s: "s = c # cs" and c: "is_digit c" and e3: "fst (snd m3) = cs"
    by (cases s) (auto simp: ms.simps(1) split: if_splits)
  from ms_suffix_all mD have "suffix (fst (snd m2)) (fst (snd m3))" by (rule bspec)
  moreover from ms_suffix_all mF have "suffix (fst (snd m)) (fst (snd m2))" by (rule bspec)
  ultimately have "suffix (fst (snd m)) cs" using e3 suffix_order.trans by blast
  then have "length (fst (snd m)) \<le> length cs" by (rule suffix_length_le)
  then have tk: "take (length s - length (fst (snd m))) s = c # take (length cs - length (fst (snd m))) cs"
    using s by (simp add: Suc_diff_le)
  from ms_groups_all st' obtain new where "snd (snd st') = new @ snd (snd mid)" "fst ` set new \<subseteq> groups_of R"
    by blast
  with gR have "snd (snd st') = snd (snd mid)" by simp
  with cm tk have "group (snd (snd st')) 1 = c # take (length cs - length (fst (snd m))) cs"
    by (simp add: group_def)
  with c show ?thesis by blast
qed

lemma finditer_experience_digit:
  "\<forall>m \<in> set (finditer rx_experience p s). \<exists>c cs. group (snd m) 1 = c # cs \<and> is_digit c"
proof (induction rx_experience p s rule: finditer.induct)
  case (1 p s)
  show ?case
  proof (cases "ms rx_experience (p, s, [])")
    case Nil
    show ?thesis
    proof (cases s)
      case Nil
      have "finditer rx_experience p s = []"
        by (subst finditer.simps) (use \<open>ms rx_experience (p, s, []) = []\<close> Nil in simp)
      then show ?thesis by simp
    next
      case (Cons c cs)
      have "finditer rx_experience p s = finditer rx_experience (Some c) cs"
        by (subst finditer.simps) (use \<open>ms rx_experience (p, s, []) = []\<close> Cons in simp)
      with "1.hyps"(1) [OF \<open>ms rx_experience (p, s, []) = []\<close> Cons] show ?thesis by simp
    qed
  next
    case (Cons st rest)
    obtain p' s' g where st: "st = (p', s', g)" by (cases st) auto
    from Cons have "st \<in> set (ms rx_experience (p, s, []))" by simp
    from experience_group_digit [OF this] st
    have g: "\<exists>c cs. group g 1 = c # cs \<and> is_digit c" by simp
    show ?thesis
    proof (cases "length s' < length s")
      case True
      have "finditer rx_experience p s =
              (take (length s - length s') s, g) # finditer rx_experience p' s'"
        by (subst finditer.simps) (use Cons st True in simp)
      moreover have "\<forall>m \<in> set (finditer rx_experience p' s'). \<exists>c cs. group (snd m) 1 = c # cs \<and> is_digit c"
        using "1.hyps"(2) [OF Cons, of p' "(s', g)" s' g] st True by simp
      ultimately show ?thesis using g by simp
    next
      case False
      show ?thesis
      proof (cases s)
        case Nil
        have "finditer rx_experience p s = [([], g)]"
          by (subst finditer.simps) (use Cons st False Nil in simp)
        then show ?thesis using g by simp
      next
        case (Cons c cs)
        have "finditer rx_experience p s = ([], g) # finditer rx_experience (Some c) cs"
          by (subst finditer.simps)
             (use \<open>ms rx_experience (p, s, []) = st # rest\<close> st False Cons in simp)
        moreover have "\<forall>m \<in> set (finditer rx_experience (Some c) cs). \<exists>c cs. group (snd m) 1 = c # cs \<and> is_digit c"
          using "1.hyps"(3) [OF \<open>ms rx_experience (p, s, []) = st # rest\<close>, of p' "(s', g)" s' g c cs]
            st False Cons by simp
        ultimately show ?thesis using g by simp
      qed
    qed
  qed
qed

lemma float_first_char_digit:
  "is_digit c \<Longrightarrow> 0 \<le> float_first_char (c # cs) \<and> float_first_char (c # cs) \<le> 9"
  by (auto simp: float_first_char_def is_digit_def code_in_def)

lemma fold_max_bounds:
  fixes y :: real
  shows "lo \<le> y \<Longrightarrow> y \<le> hi \<Longrightarrow> \<forall>z \<in> set ys. lo \<le> z \<and> z \<le> hi \<Longrightarrow>
         lo \<le> fold max ys y \<and> fold max ys y \<le> hi"
  by (induction ys arbitrary: y) (auto simp: max_def)

lemma extract_experience_years_one_digit:
  "0 \<le> extract_experience_years t \<and> extract_experience_years t \<le> 9"
proof -
  define years where "years = map float_first_char
      (map (\<lambda>m. group (snd m) 1) (finditer rx_experience None (lower t)))"
  have b: "\<forall>z \<in> set years. 0 \<le> z \<and> z \<le> 9"
    using finditer_experience_digit [of None "lower t"] float_first_char_digit
    by (fastforce simp: years_def)
  have "0 \<le> (case years of [] \<Rightarrow> 0 | y # ys \<Rightarrow> fold max ys y)
        \<and> (case years of [] \<Rightarrow> 0 | y # ys \<Rightarrow> fold max ys y) \<le> 9"
  proof (cases years)
    case Nil
    then show ?thesis by simp
  next
    case (Cons y ys)
    with b fold_max_bounds [of 0 y 9 ys] show ?thesis by simp
  qed
  then show ?thesis
    by (simp add: extract_experience_years_def Let_def years_def)
qed

lemma parsed_experience_nonneg: "0 \<le> experience_years (parse_resume t)"
  using extract_experience_years_one_digit [of t] by (simp add: parse_resume_def)

text \<open>
  Claim C4 fails on the code. \<^verbatim>\<open>re.findall\<close> with one group returns the matched numbers as
  strings, and \<^verbatim>\<open>float(m[0])\<close> reads the first character of each: for \<^verbatim>\<open>12 years\<close> the result
  is 1.0, where the largest matched number is 12.
\<close>

theorem extract_experience_years_first_digit_only: "extract_experience_years ''12 years'' = 1"
  by code_simp

lemma extract_experience_years_examples:
  "extract_experience_years ''5 years, 3 yrs'' = 5" "extract_experience_years [] = 0"
  by code_simp+

lemma find_holds: "find P xs = Some x \<Longrightarrow> P x"
  by (induction xs) (auto split: if_splits)

text \<open>
  Claim C10. The email of the parsed record is empty or passes \<open>validate_email\<close>.
\<close>

theorem parsed_email_empty_or_valid: "email (parse_resume t) = [] \<or> validate_email (email (parse_resume t))"
proof -
  have "extract_email t = [] \<or> validate_email (extract_email t)"
    by (auto simp: extract_email_def Let_def split: option.splits dest: find_holds)
  then show ?thesis by (simp add: parse_resume_def)
qed

lemma extract_email_skips_invalid: "email (parse_resume ''x bad@x.y1 good@x.yz'') = ''good@x.yz''"
  by code_simp

text \<open>
  Claim C6, as stated, fails: \<^verbatim>\<open>2024-1-5\<close> is no ISO \<^verbatim>\<open>YYYY-MM-DD\<close> date, but \<^verbatim>\<open>strptime\<close> accepts it
  for the format \<^verbatim>\<open>%Y-%m-%d\<close>: the workflow runs to the end and calls the collaborators.
\<close>

theorem unpadded_date_is_accepted:
  "''2024-1-5'' \<noteq> [] \<and> \<not> iso_ymd_date ''2024-1-5''
   \<and> fst run_unpadded = Inr result_low \<and> ok result_low
   \<and> effects (snd run_unpadded) \<noteq> []"
  by code_simp

text \<open>
  Claim C6, amended. A non-empty preferred date that \<open>validate_date_str\<close> rejects makes
  \<open>process_workflow\<close> return the failure result with the date error: there is no workflow
  log, and the world is the one before the call (no collaborator was called, the store is
  unchanged).
\<close>

theorem malformed_date_fails_without_effect:
  assumes "d \<noteq> []" and "\<not> validate_date_str d"
  shows "process_workflow ev t reqs d w =
           (Inr \<lparr>ok = False, workflow = None,
                  error = Some (ValueError ''preferred_interview_date must be YYYY-MM-DD'')\<rparr>, w)"
  using assms by (simp add: process_workflow_def process_workflow_body_def)

text \<open>Claim C6 at the date \<^verbatim>\<open>2024/01/01\<close>.\<close>

theorem malformed_date_fails_without_effect_witness:
  "''2024/01/01'' \<noteq> [] \<and> \<not> validate_date_str ''2024/01/01''
   \<and> process_workflow env0 resume2 (job_requirements [''python''] 1 ''bachelor'') ''2024/01/01'' world0 =
           (Inr \<lparr>ok = False, workflow = None,
                  error = Some (ValueError ''preferred_interview_date must be YYYY-MM-DD'')\<rparr>, world0)"
proof -
  have a: "''2024/01/01'' \<noteq> []" by simp
  have b: "\<not> validate_date_str ''2024/01/01''" by code_simp
  from malformed_date_fails_without_effect [OF a b] a b show ?thesis by blast
qed

text \<open>
  Claim C7. \<open>process_workflow\<close> never raises: for every resume text, requirements dict
  (with values of any type) and date it returns a result, either \<open>ok\<close> with a workflow log and
  no error, or not \<open>ok\<close> with an error and no log.
\<close>

theorem process_workflow_returns_result:
  "\<exists>res w'. process_workflow ev t reqs d w = (Inr res, w')
     \<and> ((ok res \<and> (\<exists>wl. workflow res = Some wl) \<and> error res = None)
        \<or> (\<not> ok res \<and> workflow res = None \<and> (\<exists>e. error res = Some e)))"
proof (cases "process_workflow_body ev t reqs d w")
  case (Pair r w')
  show ?thesis
  proof (cases r)
    case (Inl e)
    with Pair show ?thesis by (simp add: process_workflow_def)
  next
    case (Inr res)
    with Pair have "ok res \<and> (\<exists>wl. workflow res = Some wl) \<and> error res = None"
      by (auto simp: process_workflow_body_def split: if_splits prod.splits sum.splits)
    with Pair Inr show ?thesis by (simp add: process_workflow_def)
  qed
qed

lemma on_resume_submit_actions:
  assumes "on_resume_submit ev t reqs d w = (Inr wl, w')"
  shows "score_candidate (parse_resume t) reqs = Inr (score_result wl)
     \<and> map action (actions wl) =
         (if 60 \<le> score (score_result wl) then [''schedule_interview'', ''update_ats'', ''notify_hr'']
          else [''notify_hr'', ''update_ats'', ''notify_hr''])"
  using assms
  by (auto simp: on_resume_submit_def Let_def split: sum.splits prod.splits if_splits)

lemma process_workflow_ok:
  assumes "fst (process_workflow ev t reqs d w) = Inr res" and "ok res"
  shows "\<exists>wl w'. workflow res = Some wl \<and> on_resume_submit ev t reqs d w = (Inr wl, w')"
  using assms
  by (auto simp: process_workflow_def process_workflow_body_def split: if_splits prod.splits sum.splits)

text \<open>
  Claim C5. In the log of a successful run the actions are, for a score of at least 60,
  \<^verbatim>\<open>schedule_interview\<close>, \<^verbatim>\<open>update_ats\<close>, \<^verbatim>\<open>notify_hr\<close>, and for a lower score \<^verbatim>\<open>notify_hr\<close>,
  \<^verbatim>\<open>update_ats\<close>, \<^verbatim>\<open>notify_hr\<close>, the score being the one \<open>score_candidate\<close> computes for the
  parsed resume: the first action comes before \<^verbatim>\<open>update_ats\<close>, and the last is \<^verbatim>\<open>notify_hr\<close>.
\<close>

theorem workflow_action_order:
  assumes "fst (process_workflow ev t reqs d w) = Inr res" and "ok res"
  shows "\<exists>wl. workflow res = Some wl
     \<and> score_candidate (parse_resume t) reqs = Inr (score_result wl)
     \<and> (60 \<le> score (score_result wl) \<longrightarrow>
           map action (actions wl) = [''schedule_interview'', ''update_ats'', ''notify_hr'']
         \<and> occurs_before ''schedule_interview'' ''update_ats'' (map action (actions wl)))
     \<and> (score (score_result wl) < 60 \<longrightarrow>
           map action (actions wl) = [''notify_hr'', ''update_ats'', ''notify_hr'']
         \<and> occurs_before ''notify_hr'' ''update_ats'' (map action (actions wl)))
     \<and> last (map action (actions wl)) = ''notify_hr''"
proof -
  from process_workflow_ok [OF assms] obtain wl w'
    where l: "workflow res = Some wl" and s: "on_resume_submit ev t reqs d w = (Inr wl, w')"
    by blast
  from on_resume_submit_actions [OF s]
  have sc: "score_candidate (parse_resume t) reqs = Inr (score_result wl)"
    and a: "map action (actions wl) =
         (if 60 \<le> score (score_result wl) then [''schedule_interview'', ''update_ats'', ''notify_hr'']
          else [''notify_hr'', ''update_ats'', ''notify_hr''])"
    by blast+
  have hi: "60 \<le> score (score_result wl) \<longrightarrow>
           map action (actions wl) = [''schedule_interview'', ''update_ats'', ''notify_hr'']
         \<and> occurs_before ''schedule_interview'' ''update_ats'' (map action (actions wl))"
    using a by simp
  have lo: "score (score_result wl) < 60 \<longrightarrow>
           map action (actions wl) = [''notify_hr'', ''update_ats'', ''notify_hr'']
         \<and> occurs_before ''notify_hr'' ''update_ats'' (map action (actions wl))"
    using a by simp
  have la: "last (map action (actions wl)) = ''notify_hr''"
    using a by (simp split: if_splits)
  show ?thesis
  proof (intro exI conjI)
    show "workflow res = Some wl" by (fact l)
    show "score_candidate (parse_resume t) reqs = Inr (score_result wl)" by (fact sc)
    show "60 \<le> score (score_result wl) \<longrightarrow>
           map action (actions wl) = [''schedule_interview'', ''update_ats'', ''notify_hr'']
         \<and> occurs_before ''schedule_interview'' ''update_ats'' (map action (actions wl))" by (fact hi)
    show "score (score_result wl) < 60 \<longrightarrow>
           map action (actions wl) = [''notify_hr'', ''update_ats'', ''notify_hr'']
         \<and> occurs_before ''notify_hr'' ''update_ats'' (map action (actions wl))" by (fact lo)
    show "last (map action (actions wl)) = ''notify_hr''" by (fact la)
  qed
qed

lemma run_low_value: "fst run_low = Inr result_low"
  by code_simp

lemma run_high_value: "fst run_high = Inr result_high"
  by code_simp

text \<open>Claim C5 at a run that scores 20 and at a run that scores 100.\<close>

theorem workflow_action_order_witness:
  "fst run_low = Inr result_low \<and> ok result_low
   \<and> score (score_result (the (workflow result_low))) < 60
   \<and> occurs_before ''notify_hr'' ''update_ats'' (map action (actions (the (workflow result_low))))
   \<and> fst run_high = Inr result_high \<and> ok result_high
   \<and> 60 \<le> score (score_result (the (workflow result_high)))
   \<and> occurs_before ''schedule_interview'' ''update_ats'' (map action (actions (the (workflow result_high))))
   \<and> last (map action (actions (the (workflow result_high)))) = ''notify_hr''"
proof -
  have ok_low: "ok result_low" and ok_high: "ok result_high"
    by (simp_all add: result_low_def result_high_def)
  have s_low: "score (score_result (the (workflow result_low))) < 60"
    by (simp add: result_low_def)
  have s_high: "60 \<le> score (score_result (the (workflow result_high)))"
    by (simp add: result_high_def)
  have lo: "fst (process_workflow env0 [] (job_requirements [''python''] 5 []) ''2024-05-01'' world0)
              = Inr result_low"
    using run_low_value by (simp only: run_low_def)
  have hi: "fst (process_workflow env0 ''python'' (job_requirements [''python''] 0 []) [] world0)
              = Inr result_high"
    using run_high_value by (simp only: run_high_def)
  from workflow_action_order [OF lo ok_low] s_low
  have a: "occurs_before ''notify_hr'' ''update_ats'' (map action (actions (the (workflow result_low))))"
    by auto
  from workflow_action_order [OF hi ok_high] s_high
  have b: "occurs_before ''schedule_interview'' ''update_ats'' (map action (actions (the (workflow result_high))))"
    "last (map action (actions (the (workflow result_high)))) = ''notify_hr''"
    by auto
  from run_low_value run_high_value ok_low ok_high s_low s_high a b show ?thesis
    by (intro conjI)
qed

text \<open>
  Claim C8 fails on the code. The text \<^verbatim>\<open>Resume\<close>, newline, \<^verbatim>\<open>Name: Unknown\<close> has a name line whose
  value is \<^verbatim>\<open>Unknown\<close>; that value is also the marker for "no label found", so the fallback
  runs and the name becomes \<^verbatim>\<open>Resume\<close>.
\<close>

theorem labelled_name_unknown_falls_through: "name (parse_resume resume1) = ''Resume''"
proof -
  have "extract_name resume1 = ''Resume''" by code_simp
  then show ?thesis by (simp add: parse_resume_def)
qed

lemma process_workflow_catches_type_error:
  "process_workflow env0 [] [(''min_experience'', PStr ''five'')] [] world0 =
     (Inr \<lparr>ok = False, workflow = None, error = Some TypeError\<rparr>, world0)"
proof -
  have "score_candidate (parse_resume []) [(''min_experience'', PStr ''five'')] = Inl TypeError"
    by code_simp
  then show ?thesis
    by (simp add: process_workflow_def process_workflow_body_def on_resume_submit_def)
qed

end
